theory Spec2Isabelle
  imports Complex_Main
begin

section \<open>Data model (the interfaces of the types module)\<close>

text \<open>
  A JavaScript \<open>number\<close> is modelled by the real number it denotes: every value the
  code compares, takes the minimum of, subtracts or floors is the exact value of a
  finite double, and on the integers below \<open>2^53\<close> these operations are exact.
  NaN and the infinities do not occur (the numbers come out of JSON).
\<close>

type_synonym number = real

record VideoRequest =
  record_id :: string
  input_url :: string
  webhook_url :: "string option"
  framerate :: number
  duration :: number
  cache :: bool
  zoom :: number
  crop :: bool
  output_width :: number
  output_height :: number

record VideoProcessingData = VideoRequest +
  input_width :: number
  input_height :: number
  request_host :: string
  cached_input_file :: string
  output_file :: string

record WebhookPayload =
  payload_record_id :: string
  payload_filename :: string

text \<open>
  What the code takes from the platform and from its libraries, and does not define
  itself: the text \<open>Number.prototype.toString\<close> gives for a number that is not a
  plain decimal integer, Joi's URI check, the WHATWG \<open>new URL(...)\<close> parser
  (\<open>None\<close>: it throws), \<open>JSON.parse\<close> of the probe's output followed by
  \<open>result.streams[0]\<close> (\<open>None\<close>: one of the two throws), and \<open>path.join\<close>
  of a directory and a file name, which joins and normalises them.
\<close>

record parsed_url =
  protocol :: string
  hostname :: string

record platform =
  number_toString_other :: "number \<Rightarrow> string"
  joi_uri :: "string \<Rightarrow> bool"
  url_parse :: "string \<Rightarrow> parsed_url option"
  json_stream_dims :: "string \<Rightarrow> (number \<times> number) option"
  path_join :: "string \<Rightarrow> string \<Rightarrow> string"

section \<open>Numbers as text\<close>

definition digit_char :: "nat \<Rightarrow> char" where
  "digit_char n = ''0123456789'' ! n"

fun nat_digits :: "nat \<Rightarrow> string" where
  "nat_digits n =
     (if n < 10 then [digit_char n] else nat_digits (n div 10) @ [digit_char (n mod 10)])"

declare nat_digits.simps [simp del]

definition int_str :: "int \<Rightarrow> string" where
  "int_str i = (if i < 0 then CHR ''-'' # nat_digits (nat (- i)) else nat_digits (nat i))"

definition is_integer :: "number \<Rightarrow> bool" where
  "is_integer x = (of_int \<lfloor>x\<rfloor> = x)"

text \<open>
  \<open>`${x}`\<close> and \<open>x.toString()\<close>: an integer of magnitude below \<open>10^21\<close> prints as
  its decimal digits; everything else is the platform's shortest round-trip text.
\<close>

definition number_str :: "platform \<Rightarrow> number \<Rightarrow> string" where
  "number_str P x =
     (if is_integer x \<and> \<bar>x\<bar> < 10 ^ 21 then int_str \<lfloor>x\<rfloor> else number_toString_other P x)"

section \<open>The filter chain of createVideoTask\<close>

text \<open>The four constants of the crop branch: cropWidth, cropHeight, cropX, cropY.\<close>

definition cropWidth :: "VideoProcessingData \<Rightarrow> number" where
  "cropWidth data = min (input_width data) (output_width data)"

definition cropHeight :: "VideoProcessingData \<Rightarrow> number" where
  "cropHeight data = min (input_height data) (output_height data)"

definition cropX :: "VideoProcessingData \<Rightarrow> number" where
  "cropX data = of_int \<lfloor>(input_width data - cropWidth data) / 2\<rfloor>"

definition cropY :: "VideoProcessingData \<Rightarrow> number" where
  "cropY data = of_int \<lfloor>(input_height data - cropHeight data) / 2\<rfloor>"

definition dimensions_differ :: "VideoProcessingData \<Rightarrow> bool" where
  "dimensions_differ data =
     (input_width data \<noteq> output_width data \<or> input_height data \<noteq> output_height data)"

definition cropFilter :: "platform \<Rightarrow> VideoProcessingData \<Rightarrow> string" where
  "cropFilter P data =
     (if crop data \<and> dimensions_differ data
      then '',crop='' @ number_str P (cropWidth data) @ '':'' @ number_str P (cropHeight data)
             @ '':'' @ number_str P (cropX data) @ '':'' @ number_str P (cropY data)
      else [])"

definition padFilter :: "platform \<Rightarrow> VideoProcessingData \<Rightarrow> string" where
  "padFilter P data =
     (if \<not> crop data \<and> dimensions_differ data
      then '',scale=w=min('' @ number_str P (output_width data) @ ''/iw'' @ [CHR 0x5C] @ '',''
             @ number_str P (output_height data) @ ''/ih)*iw:h=-2,scale=''
             @ number_str P (output_width data) @ '':'' @ number_str P (output_height data)
             @ '':force_original_aspect_ratio=decrease,pad=''
             @ number_str P (output_width data) @ '':'' @ number_str P (output_height data)
             @ '':(ow-iw)/2:(oh-ih)/2''
      else [])"

text \<open>
  The zoom stage. \<open>(zoom / 100) * maxZoomRate\<close> is computed here in exact
  arithmetic; the binary64 rounding of the product is not modelled, only where the
  resulting text goes.
\<close>

definition maxZoomRate :: number where
  "maxZoomRate = 1 / 10"

definition normalizedZoom :: "VideoProcessingData \<Rightarrow> number" where
  "normalizedZoom data = (zoom data / 100) * maxZoomRate"

definition zoomFilter :: "platform \<Rightarrow> VideoProcessingData \<Rightarrow> string" where
  "zoomFilter P data =
     (if zoom data \<noteq> 0
      then (if zoom data > 0
            then '',zoompan=z='' @ [CHR 0x27] @ ''min(zoom+'' @ number_str P (normalizedZoom data)
                   @ '',2)'' @ [CHR 0x27] @ '':d=1''
            else '',zoompan=z='' @ [CHR 0x27] @ ''max(zoom-''
                   @ number_str P \<bar>normalizedZoom data\<bar> @ '',1)'' @ [CHR 0x27] @ '':d=1'')
      else [])"

text \<open>
  The argument of \<open>-vf\<close>, as line 83 of the queue module writes it:
  \<open>`format=yuv420p${cropFilter}${padFilter},scale=${output_width}:${output_height}`\<close>.
\<close>

definition vf_arg :: "platform \<Rightarrow> VideoProcessingData \<Rightarrow> string" where
  "vf_arg P data =
     ''format=yuv420p'' @ cropFilter P data @ padFilter P data
       @ '',scale='' @ number_str P (output_width data) @ '':'' @ number_str P (output_height data)"

definition ffmpegCommand :: "platform \<Rightarrow> VideoProcessingData \<Rightarrow> string list" where
  "ffmpegCommand P data =
     [''ffmpeg'',
      ''-loop'', ''1'',
      ''-i'', cached_input_file data,
      ''-vf'', vf_arg P data,
      ''-t'', number_str P (duration data),
      ''-pix_fmt'', ''yuv420p'',
      ''-r'', number_str P (framerate data),
      output_file data]"

section \<open>Configuration (config module)\<close>

text \<open>
  The fields of \<open>Config\<close> the modelled functions read. \<open>port\<close>, \<open>nodeEnv\<close>,
  \<open>defaultZoom\<close>, \<open>redis\<close> and \<open>logLevel\<close> are read by none of them.
\<close>

record allowed_ips =
  LOCAL :: "string list"
  MAKE_US1 :: "string list"
  MAKE_EU2 :: "string list"
  MAKE_EU1 :: "string list"

record Config =
  cacheDir :: string
  moviesDir :: string
  scheme :: string
  publicPort :: string
  allowedDomains :: "string list"
  allowedIPs :: allowed_ips

text \<open>The configuration when no environment variable is set.\<close>

definition default_config :: Config where
  "default_config =
     \<lparr>cacheDir = ''cache'', moviesDir = ''movies'', scheme = ''https'', publicPort = ''80'',
      allowedDomains = [''example.com'', ''trusted.com''],
      allowedIPs =
        \<lparr>LOCAL = [''localhost''],
         MAKE_US1 = [''54.209.79.175'', ''54.80.47.193'', ''54.161.178.114''],
         MAKE_EU2 = [''34.254.1.9'', ''52.31.156.93'', ''52.50.32.186''],
         MAKE_EU1 = [''54.75.157.176'', ''54.78.149.203'', ''52.18.144.195'']\<rparr>\<rparr>"

section \<open>The render worker (queue module)\<close>

datatype exn = Error string | TypeError string

text \<open>
  How a child process ends for the promise that wraps it: its \<open>close\<close> event with
  the exit code (\<open>None\<close> is JavaScript's \<open>null\<close>, a process killed by a signal),
  the collected stdout and stderr; or its \<open>error\<close> event.
\<close>

datatype proc_result = Closed "int option" string string | ProcError exn

text \<open>
  The outside world of one run of the worker: what the encoder does with the
  arguments it is given, whether the webhook call resolves, whether
  \<open>fs.unlinkSync\<close> throws. The state is the set of paths that exist.
\<close>

record worker_env =
  spawn_ffmpeg :: "string list \<Rightarrow> proc_result"
  axios_post :: "string \<Rightarrow> WebhookPayload \<Rightarrow> bool"
  unlinkSync_throws :: "string \<Rightarrow> bool"

definition code_str :: "int option \<Rightarrow> string" where
  "code_str code = (case code of None \<Rightarrow> ''null'' | Some c \<Rightarrow> int_str c)"

definition run_ffmpeg :: "worker_env \<Rightarrow> string list \<Rightarrow> exn + unit" where
  "run_ffmpeg E cmd =
     (case spawn_ffmpeg E (tl cmd) of
        Closed code out err \<Rightarrow>
          if code = Some 0 then Inr ()
          else Inl (Error (''FFmpeg failed with exit code '' @ code_str code @ '': '' @ err))
      | ProcError e \<Rightarrow> Inl e)"

definition webhookPayload :: "Config \<Rightarrow> VideoProcessingData \<Rightarrow> WebhookPayload" where
  "webhookPayload cfg data =
     (let baseUrl = scheme cfg @ ''://'' @ request_host data @ '':'' @ publicPort cfg;
          fullUrl = baseUrl @ ''/'' @ output_file data
      in \<lparr>payload_record_id = record_id data, payload_filename = fullUrl\<rparr>)"

text \<open>\<open>if (webhook_url)\<close>: an absent and an empty string are both falsy.\<close>

definition call_webhook :: "Config \<Rightarrow> worker_env \<Rightarrow> VideoProcessingData \<Rightarrow> exn + unit" where
  "call_webhook cfg E data =
     (case webhook_url data of
        None \<Rightarrow> Inr ()
      | Some url \<Rightarrow>
          if url = [] then Inr ()
          else if axios_post E url (webhookPayload cfg data) then Inr ()
          else Inl (Error ''Webhook call failed''))"

definition cleanup :: "worker_env \<Rightarrow> VideoProcessingData \<Rightarrow> string set \<Rightarrow> string set" where
  "cleanup E data fs =
     (if cached_input_file data \<in> fs
      then (if unlinkSync_throws E (cached_input_file data) then fs
            else fs - {cached_input_file data})
      else fs)"

definition createVideoTask ::
  "platform \<Rightarrow> Config \<Rightarrow> worker_env \<Rightarrow> VideoProcessingData \<Rightarrow> string set
     \<Rightarrow> (exn + unit) \<times> string set" where
  "createVideoTask P cfg E data fs =
     (if input_width data \<le> 0 \<or> input_height data \<le> 0
         \<or> output_width data \<le> 0 \<or> output_height data \<le> 0
      then (Inl (Error ''Input and output dimensions must be positive integers''), fs)
      else
        (case run_ffmpeg E (ffmpegCommand P data) of
           Inl e \<Rightarrow> (Inl e, fs)
         | Inr _ \<Rightarrow>
             (case call_webhook cfg E data of
                Inl e \<Rightarrow> (Inl e, fs)
              | Inr _ \<Rightarrow> (Inr (), cleanup E data fs))))"

record job_result =
  success :: bool
  message :: string

text \<open>The handler given to \<open>videoQueue.process\<close>: it rethrows what the task throws.\<close>

definition process_createVideo ::
  "platform \<Rightarrow> Config \<Rightarrow> worker_env \<Rightarrow> VideoProcessingData \<Rightarrow> string set
     \<Rightarrow> (exn + job_result) \<times> string set" where
  "process_createVideo P cfg E data fs =
     (case createVideoTask P cfg E data fs of
        (Inl e, fs') \<Rightarrow> (Inl e, fs')
      | (Inr _, fs') \<Rightarrow> (Inr \<lparr>success = True, message = ''Video created successfully''\<rparr>, fs'))"

section \<open>Validation (validation module)\<close>

definition is_alnum_char :: "char \<Rightarrow> bool" where
  "is_alnum_char c =
     (c \<in> set ''0123456789abcdefghijklmnopqrstuvwxyzABCDEFGHIJKLMNOPQRSTUVWXYZ'')"

text \<open>\<open>/^[0-9a-zA-Z]+$/.test(recordId)\<close>: one character or more, each of the class.\<close>

definition isValidRecordId :: "string \<Rightarrow> bool" where
  "isValidRecordId recordId = (recordId \<noteq> [] \<and> list_all is_alnum_char recordId)"

text \<open>
  The rules of the Joi schema, on a body whose fields have the types of
  \<open>VideoRequest\<close>. \<open>Joi.string()\<close> refuses the empty string, \<open>alphanum()\<close> is
  \<open>/^[a-zA-Z0-9]+$/\<close>, \<open>Joi.number()\<close> refuses a number outside the safe integers'
  range, \<open>positive()\<close> is \<open>> 0\<close>, \<open>min\<close> and \<open>max\<close> are inclusive bounds,
  \<open>integer()\<close> wants a whole number. \<open>uri()\<close> is the platform's.
\<close>

definition joi_alphanum :: "string \<Rightarrow> bool" where
  "joi_alphanum s = list_all is_alnum_char s"

definition joi_number_safe :: "number \<Rightarrow> bool" where
  "joi_number_safe x = (\<bar>x\<bar> \<le> 2 ^ 53 - 1)"

text \<open>
  A violation is the key and the rule that failed (\<open>details[0].path\<close> and
  \<open>details[0].type\<close>); \<open>details[0].message\<close> is Joi's sentence for the two.
\<close>

datatype violation = Violation string string

record ValidationResult =
  isValid :: bool
  error :: "violation option"

text \<open>
  The schema's rules in the order Joi runs them: key by key as the schema lists
  them, and for each key its rules in the order they are chained. \<open>cache\<close> and
  \<open>crop\<close> are booleans by type. Each entry is the key, the rule, and whether the
  body passes it.
\<close>

definition videoRequestSchema :: "platform \<Rightarrow> VideoRequest \<Rightarrow> (string \<times> string \<times> bool) list" where
  "videoRequestSchema P data =
     [(''record_id'', ''string.empty'', record_id data \<noteq> []),
      (''record_id'', ''string.alphanum'', joi_alphanum (record_id data)),
      (''input_url'', ''string.empty'', input_url data \<noteq> []),
      (''input_url'', ''string.uri'', joi_uri P (input_url data)),
      (''webhook_url'', ''string.empty'', webhook_url data \<noteq> Some []),
      (''webhook_url'', ''string.uri'',
         (case webhook_url data of None \<Rightarrow> True | Some u \<Rightarrow> joi_uri P u)),
      (''framerate'', ''number.unsafe'', joi_number_safe (framerate data)),
      (''framerate'', ''number.positive'', 0 < framerate data),
      (''duration'', ''number.unsafe'', joi_number_safe (duration data)),
      (''duration'', ''number.positive'', 0 < duration data),
      (''duration'', ''number.max'', duration data \<le> 60),
      (''zoom'', ''number.unsafe'', joi_number_safe (zoom data)),
      (''zoom'', ''number.min'', - 100 \<le> zoom data),
      (''zoom'', ''number.max'', zoom data \<le> 100),
      (''output_width'', ''number.unsafe'', joi_number_safe (output_width data)),
      (''output_width'', ''number.positive'', 0 < output_width data),
      (''output_width'', ''number.integer'', is_integer (output_width data)),
      (''output_height'', ''number.unsafe'', joi_number_safe (output_height data)),
      (''output_height'', ''number.positive'', 0 < output_height data),
      (''output_height'', ''number.integer'', is_integer (output_height data))]"

fun first_violation :: "(string \<times> string \<times> bool) list \<Rightarrow> violation option" where
  "first_violation [] = None"
| "first_violation ((key, rule, ok) # rest) =
     (if ok then first_violation rest else Some (Violation key rule))"

definition validateJson :: "platform \<Rightarrow> VideoRequest \<Rightarrow> ValidationResult" where
  "validateJson P data =
     (case first_violation (videoRequestSchema P data) of
        Some v \<Rightarrow> \<lparr>isValid = False, error = Some v\<rparr>
      | None \<Rightarrow> \<lparr>isValid = True, error = None\<rparr>)"

text \<open>\<open>Object.values(config.allowedIPs).flat()\<close>, in the order of the object's keys.\<close>

definition allowedIPs_flat :: "Config \<Rightarrow> string list" where
  "allowedIPs_flat cfg =
     LOCAL (allowedIPs cfg) @ MAKE_US1 (allowedIPs cfg) @ MAKE_EU2 (allowedIPs cfg)
       @ MAKE_EU1 (allowedIPs cfg)"

text \<open>The body of the \<open>try\<close> of isValidUrl: \<open>new URL(url)\<close> throws a TypeError.\<close>

definition isValidUrl_try :: "platform \<Rightarrow> Config \<Rightarrow> string \<Rightarrow> exn + bool" where
  "isValidUrl_try P cfg url =
     (case url_parse P url of
        None \<Rightarrow> Inl (TypeError ''Invalid URL'')
      | Some parsedUrl \<Rightarrow>
          if protocol parsedUrl \<notin> set [''http:'', ''https:''] then Inr False
          else if hostname parsedUrl \<notin> set (allowedIPs_flat cfg)
                  \<and> hostname parsedUrl \<notin> set (allowedDomains cfg) then Inr False
          else Inr True)"

text \<open>isValidUrl with its \<open>catch\<close>: \<open>Inl\<close> would be an exception leaving the function.\<close>

definition isValidUrl :: "platform \<Rightarrow> Config \<Rightarrow> string \<Rightarrow> exn + bool" where
  "isValidUrl P cfg url =
     (case isValidUrl_try P cfg url of Inl _ \<Rightarrow> Inr False | Inr b \<Rightarrow> Inr b)"

section \<open>Utilities (utils module)\<close>

definition characters :: string where
  "characters = ''ABCDEFGHIJKLMNOPQRSTUVWXYZabcdefghijklmnopqrstuvwxyz0123456789''"

text \<open>
  generateRandomFilename: \<open>rnd i\<close> is the value \<open>randomIndex\<close> has in the i-th
  round of the loop, that is \<open>Math.floor(Math.random() * characters.length)\<close> as
  the platform computes it. An index past the end of \<open>characters\<close> reads
  \<open>undefined\<close>, which \<open>+=\<close> appends as that word.
\<close>

definition random_char :: "int \<Rightarrow> string" where
  "random_char randomIndex =
     (if 0 \<le> randomIndex \<and> nat randomIndex < length characters
      then [characters ! nat randomIndex] else ''undefined'')"

definition generateRandomFilename :: "(nat \<Rightarrow> int) \<Rightarrow> nat \<Rightarrow> string" where
  "generateRandomFilename rnd len = concat (map (\<lambda>i. random_char (rnd i)) [0..<len]) @ ''.mp4''"

section \<open>The create-video route (routes module)\<close>

fun startsWith :: "string \<Rightarrow> string \<Rightarrow> bool" where
  "startsWith s [] = True"
| "startsWith [] (p # ps) = False"
| "startsWith (c # cs) (p # ps) = (c = p \<and> startsWith cs ps)"

text \<open>\<open>s.includes(p)\<close>: \<open>p\<close> occurs in \<open>s\<close>.\<close>

fun str_includes :: "string \<Rightarrow> string \<Rightarrow> bool" where
  "str_includes [] p = (p = [])"
| "str_includes (c # cs) p = (startsWith (c # cs) p \<or> str_includes cs p)"

record VideoResponse =
  res_record_id :: string
  res_filename :: string
  res_message :: string
  res_input_height :: number
  res_input_width :: number
  res_output_height :: number
  res_output_width :: number

datatype response_body = ErrorBody string | VideoBody VideoResponse

record http_response =
  status :: nat
  body :: response_body

definition bad_request :: "string \<Rightarrow> http_response" where
  "bad_request msg = \<lparr>status = 400, body = ErrorBody msg\<rparr>"

record http_request =
  req_body :: VideoRequest
  req_host :: "string option"

record job_options =
  attempts :: nat
  backoff_type :: string
  backoff_delay :: nat
  removeOnComplete :: nat
  removeOnFail :: nat

record queued_job =
  job_name :: string
  job_data :: VideoProcessingData
  job_opts :: job_options

text \<open>The state the route changes: the paths that exist, and the jobs added to the queue.\<close>

record world =
  files :: "string set"
  jobs :: "queued_job list"

datatype get_result = GetRejected | GetResponse "string option"

text \<open>
  How the promise of lines 92 to 95 ends. It listens on the write stream only:
  \<open>finish\<close> resolves it, \<open>error\<close> rejects it (with or without a file at the
  path). When the response body breaks off after the headers (a timeout, a dropped
  connection), nothing ends the write stream and nothing listens on
  \<open>response.data\<close>: the promise never settles, and the opened file stays with
  what was written.
\<close>

datatype write_result = Finish | WriteError bool | NeverSettles

text \<open>
  The outside world of one request: whether \<open>axios.get\<close> rejects (timeout, size,
  network, status, all before the response is handed over) or resolves with a
  response whose content-type header is given; whether creating a directory throws;
  the random indices of the two file names; how the write ends; how the probe ends;
  whether \<open>videoQueue.add\<close> rejects.
\<close>

record route_env =
  axios_get :: "string \<Rightarrow> get_result"
  mkdir_throws :: "string \<Rightarrow> bool"
  random_index :: "nat \<Rightarrow> nat \<Rightarrow> int"
  write_stream :: "string \<Rightarrow> write_result"
  spawn_ffprobe :: "string list \<Rightarrow> proc_result"
  queue_add_throws :: bool

definition ffprobeCommand :: "string \<Rightarrow> string list" where
  "ffprobeCommand cachedInputFile =
     [''ffprobe'',
      ''-v'', ''error'',
      ''-select_streams'', ''v:0'',
      ''-show_entries'', ''stream=width,height'',
      ''-of'', ''json'',
      cachedInputFile]"

text \<open>
  The promise around the probe (lines 109 to 144). The two error messages go on with
  the parse error and with stderr; the route's \<open>catch\<close> only logs them.
\<close>

definition probe_dimensions :: "platform \<Rightarrow> route_env \<Rightarrow> string \<Rightarrow> exn + (number \<times> number)" where
  "probe_dimensions P E cachedInputFile =
     (case spawn_ffprobe E (tl (ffprobeCommand cachedInputFile)) of
        Closed code out err \<Rightarrow>
          if code = Some 0
          then (case json_stream_dims P out of
                  Some dims \<Rightarrow> Inr dims
                | None \<Rightarrow> Inl (Error ''Failed to parse ffprobe output: ''))
          else Inl (Error (''ffprobe failed with error: '' @ err))
      | ProcError e \<Rightarrow> Inl e)"

text \<open>\<open>contentType && contentType.includes('application/json')\<close>.\<close>

definition isJsonContentType :: "string option \<Rightarrow> bool" where
  "isJsonContentType contentType =
     (case contentType of
        None \<Rightarrow> False
      | Some ct \<Rightarrow> ct \<noteq> [] \<and> str_includes ct ''application/json'')"

text \<open>\<open>path.join(config.cacheDir, generateRandomFilename())\<close>, the route's first file name.\<close>

definition cachedInputFile :: "platform \<Rightarrow> Config \<Rightarrow> route_env \<Rightarrow> string" where
  "cachedInputFile P cfg E =
     path_join P (cacheDir cfg) (generateRandomFilename (random_index E 0) 16)"

text \<open>
  The inner \<open>try\<close> of the route (download, cache, probe) with its \<open>catch\<close>: it
  answers the request itself, or yields the cached path and the dimensions, or
  never gets past its \<open>await\<close>, and then the route never answers.
\<close>

datatype acquired = Responded http_response | Acquired string number number | Unanswered

definition acquire ::
  "platform \<Rightarrow> Config \<Rightarrow> route_env \<Rightarrow> VideoRequest \<Rightarrow> world \<Rightarrow> acquired \<times> world" where
  "acquire P cfg E data w =
     (let caught = Responded (bad_request ''Failed to download input file'') in
      case axios_get E (input_url data) of
        GetRejected \<Rightarrow> (caught, w)
      | GetResponse contentType \<Rightarrow>
          if isJsonContentType contentType
          then (Responded (bad_request ''Invalid file type''), w)
          else if mkdir_throws E (cacheDir cfg) then (caught, w)
          else
            (let cached = cachedInputFile P cfg E
             in case write_stream E cached of
                  WriteError created \<Rightarrow>
                    (caught, if created then w\<lparr>files := insert cached (files w)\<rparr> else w)
                | NeverSettles \<Rightarrow> (Unanswered, w\<lparr>files := insert cached (files w)\<rparr>)
                | Finish \<Rightarrow>
                    (let w1 = w\<lparr>files := insert cached (files w)\<rparr>
                     in case probe_dimensions P E cached of
                          Inl e \<Rightarrow> (caught, w1)
                        | Inr (inputWidth, inputHeight) \<Rightarrow>
                            (Acquired cached inputWidth inputHeight, w1))))"

definition enqueue_options :: job_options where
  "enqueue_options =
     \<lparr>attempts = 3, backoff_type = ''exponential'', backoff_delay = 2000,
      removeOnComplete = 10, removeOnFail = 5\<rparr>"

text \<open>
  What the route does once the input is cached and probed (lines 155 to 195). The
  two exceptions stand for what \<open>fs.mkdirSync\<close> and \<open>videoQueue.add\<close> throw;
  the outer \<open>catch\<close> logs them and answers 500 whatever they say.
\<close>

definition enqueue ::
  "platform \<Rightarrow> Config \<Rightarrow> route_env \<Rightarrow> http_request \<Rightarrow> string \<Rightarrow> number \<Rightarrow> number
     \<Rightarrow> world \<Rightarrow> (exn + http_response) \<times> world" where
  "enqueue P cfg E req cached inputWidth inputHeight w =
     (let data = req_body req in
      if mkdir_throws E (moviesDir cfg) then (Inl (Error ''mkdir''), w)
      else
        (let filename = generateRandomFilename (random_index E 1) 16;
             outputFile = path_join P (moviesDir cfg) filename;
             processingData =
               \<lparr>record_id = record_id data, input_url = input_url data,
                webhook_url = webhook_url data, framerate = framerate data,
                duration = duration data, cache = cache data, zoom = zoom data,
                crop = crop data, output_width = output_width data,
                output_height = output_height data,
                input_width = inputWidth, input_height = inputHeight,
                request_host = (case req_host req of
                                  None \<Rightarrow> ''localhost''
                                | Some h \<Rightarrow> if h = [] then ''localhost'' else h),
                cached_input_file = cached, output_file = outputFile\<rparr>
         in if queue_add_throws E then (Inl (Error ''queue''), w)
            else
              (Inr \<lparr>status = 200,
                    body = VideoBody
                      \<lparr>res_record_id = record_id data, res_filename = filename,
                       res_message = ''Video processing started'',
                       res_input_height = inputHeight, res_input_width = inputWidth,
                       res_output_height = output_height data,
                       res_output_width = output_width data\<rparr>\<rparr>,
               w\<lparr>jobs := jobs w @ [\<lparr>job_name = ''createVideo'', job_data = processingData,
                                      job_opts = enqueue_options\<rparr>]\<rparr>)))"

text \<open>
  The body of the route's outer \<open>try\<close>. \<open>Inl\<close> is an exception it lets escape;
  \<open>Inr (Some r)\<close> is the response it sends; \<open>Inr None\<close> is the route that
  never answers.
\<close>

definition create_video_try ::
  "platform \<Rightarrow> Config \<Rightarrow> route_env \<Rightarrow> http_request \<Rightarrow> world
     \<Rightarrow> (exn + http_response option) \<times> world" where
  "create_video_try P cfg E req w =
     (let data = req_body req in
      if \<not> isValid (validateJson P data)
      then (Inr (Some (bad_request ''Invalid input data'')), w)
      else
        (case isValidUrl P cfg (input_url data) of
           Inl e \<Rightarrow> (Inl e, w)
         | Inr input_ok \<Rightarrow>
             if \<not> input_ok then (Inr (Some (bad_request ''Invalid input URL'')), w)
             else
               (case (case webhook_url data of
                        None \<Rightarrow> Inr True
                      | Some u \<Rightarrow> if u = [] then Inr True else isValidUrl P cfg u) of
                  Inl e \<Rightarrow> (Inl e, w)
                | Inr webhook_ok \<Rightarrow>
                    if \<not> webhook_ok
                    then (Inr (Some (bad_request ''Invalid webhook URL'')), w)
                    else
                      (case acquire P cfg E data w of
                         (Responded r, w1) \<Rightarrow> (Inr (Some r), w1)
                       | (Unanswered, w1) \<Rightarrow> (Inr None, w1)
                       | (Acquired cached inputWidth inputHeight, w1) \<Rightarrow>
                           (case enqueue P cfg E req cached inputWidth inputHeight w1 of
                              (Inl e, w2) \<Rightarrow> (Inl e, w2)
                            | (Inr r, w2) \<Rightarrow> (Inr (Some r), w2))))))"

text \<open>
  The route with its outer \<open>catch\<close>, which answers 500: the response the caller
  receives (\<open>None\<close>: the caller is never answered) and the state afterwards.
\<close>

definition create_video ::
  "platform \<Rightarrow> Config \<Rightarrow> route_env \<Rightarrow> http_request \<Rightarrow> world
     \<Rightarrow> http_response option \<times> world" where
  "create_video P cfg E req w =
     (case create_video_try P cfg E req w of
        (Inl e, w') \<Rightarrow>
          (Some \<lparr>status = 500, body = ErrorBody ''Internal server error''\<rparr>, w')
      | (Inr r, w') \<Rightarrow> (r, w'))"

section \<open>Concrete inputs\<close>

text \<open>
  A platform to run the model on: it prints \<open>0.05\<close> for one twentieth, accepts as
  URIs the strings with one of three schemes, parses four URLs, reads the
  dimensions out of one probe output, and joins a directory and a file name with a
  slash (what \<open>path.join\<close> gives for the directory names \<open>cache\<close> and
  \<open>movies\<close>).
\<close>

definition example_platform :: platform where
  "example_platform =
     \<lparr>number_toString_other = (\<lambda>x. if x = 1 / 20 then ''0.05'' else []),
      joi_uri = (\<lambda>s. startsWith s ''https://'' \<or> startsWith s ''http://''
                      \<or> startsWith s ''ftp://''),
      url_parse = (\<lambda>s.
        if s = ''https://example.com/image.jpg''
          then Some \<lparr>protocol = ''https:'', hostname = ''example.com''\<rparr>
        else if s = ''https://example.com/webhook''
          then Some \<lparr>protocol = ''https:'', hostname = ''example.com''\<rparr>
        else if s = ''https://evil.test/image.jpg''
          then Some \<lparr>protocol = ''https:'', hostname = ''evil.test''\<rparr>
        else if s = ''ftp://example.com/image.jpg''
          then Some \<lparr>protocol = ''ftp:'', hostname = ''example.com''\<rparr>
        else None),
      json_stream_dims = (\<lambda>out. if out = ''{streams:[{width:800,height:600}]}''
                                  then Some (800, 600) else None),
      path_join = (\<lambda>dir name. dir @ ''/'' @ name)\<rparr>"

text \<open>The example request of the repository's documentation.\<close>

definition example_request :: VideoRequest where
  "example_request =
     \<lparr>record_id = ''test123'', input_url = ''https://example.com/image.jpg'',
      webhook_url = Some ''https://example.com/webhook'', framerate = 30, duration = 5,
      cache = True, zoom = 0, crop = False, output_width = 1920, output_height = 1080\<rparr>"

definition example_job :: VideoProcessingData where
  "example_job =
     \<lparr>record_id = ''test123'', input_url = ''https://example.com/image.jpg'',
      webhook_url = Some ''https://example.com/webhook'', framerate = 30, duration = 5,
      cache = True, zoom = 0, crop = False, output_width = 1920, output_height = 1080,
      input_width = 1920, input_height = 1080, request_host = ''localhost'',
      cached_input_file = ''cache/in.mp4'', output_file = ''movies/out.mp4''\<rparr>"

text \<open>
  A worker's world in which the encoder exits with the given code, the webhook call
  resolves or not, and removing a file throws or not.
\<close>

definition example_worker_env :: "int \<Rightarrow> bool \<Rightarrow> bool \<Rightarrow> worker_env" where
  "example_worker_env code post_ok unlink_fails =
     \<lparr>spawn_ffmpeg = (\<lambda>args. Closed (Some code) [] ''failed''),
      axios_post = (\<lambda>url payload. post_ok),
      unlinkSync_throws = (\<lambda>path. unlink_fails)\<rparr>"

text \<open>
  A route's world in which the download resolves with an image content type, the
  file is written, and the probe ends as given.
\<close>

definition example_route_env :: "proc_result \<Rightarrow> route_env" where
  "example_route_env probe =
     \<lparr>axios_get = (\<lambda>url. GetResponse (Some ''image/jpeg'')),
      mkdir_throws = (\<lambda>dir. False),
      random_index = (\<lambda>call i. 0),
      write_stream = (\<lambda>path. Finish),
      spawn_ffprobe = (\<lambda>args. probe),
      queue_add_throws = False\<rparr>"

section \<open>Properties of the filter chain\<close>

lemma cropX_bounds:
  "0 \<le> cropX data \<and> cropX data + cropWidth data \<le> input_width data"
proof -
  let ?y = "input_width data - cropWidth data"
  have y0: "0 \<le> ?y" by (simp add: cropWidth_def)
  have "(0::real) \<le> ?y / 2" using y0 by simp
  then have lo: "0 \<le> \<lfloor>?y / 2\<rfloor>" by simp
  have "of_int \<lfloor>?y / 2\<rfloor> \<le> ?y / 2" by (rule of_int_floor_le)
  also have "\<dots> \<le> ?y" using y0 by simp
  finally have hi: "of_int \<lfloor>?y / 2\<rfloor> \<le> ?y" .
  show ?thesis using lo hi by (simp add: cropX_def)
qed

lemma cropY_bounds:
  "0 \<le> cropY data \<and> cropY data + cropHeight data \<le> input_height data"
proof -
  let ?y = "input_height data - cropHeight data"
  have y0: "0 \<le> ?y" by (simp add: cropHeight_def)
  have "(0::real) \<le> ?y / 2" using y0 by simp
  then have lo: "0 \<le> \<lfloor>?y / 2\<rfloor>" by simp
  have "of_int \<lfloor>?y / 2\<rfloor> \<le> ?y / 2" by (rule of_int_floor_le)
  also have "\<dots> \<le> ?y" using y0 by simp
  finally have hi: "of_int \<lfloor>?y / 2\<rfloor> \<le> ?y" .
  show ?thesis using lo hi by (simp add: cropY_def)
qed

lemmas number_text_defs =
  number_str_def is_integer_def int_str_def nat_digits.simps digit_char_def

lemmas filter_defs =
  vf_arg_def cropFilter_def padFilter_def zoomFilter_def normalizedZoom_def maxZoomRate_def
  cropWidth_def cropHeight_def cropX_def cropY_def dimensions_differ_def

text \<open>
  Claim C1. For a job with zoom other than 0 the filter chain handed to the encoder
  should hold a zoom stage between the crop-or-pad stage and the final scale. The
  code builds the stage and leaves it out of the \<open>-vf\<close> argument: at zoom 50 the
  stage is \<open>,zoompan=z='min(zoom+0.05,2)':d=1\<close>, the command carries
  \<open>format=yuv420p,scale=1920:1080\<close>, and the \<open>-vf\<close> argument never depends on
  the zoom.
\<close>

theorem C1_zoom_stage_not_in_chain:
  "zoomFilter example_platform (example_job\<lparr>zoom := 50\<rparr>)
     = '',zoompan=z='' @ [CHR 0x27] @ ''min(zoom+0.05,2)'' @ [CHR 0x27] @ '':d=1''
   \<and> ffmpegCommand example_platform (example_job\<lparr>zoom := 50\<rparr>)
     = [''ffmpeg'', ''-loop'', ''1'', ''-i'', ''cache/in.mp4'',
        ''-vf'', ''format=yuv420p,scale=1920:1080'',
        ''-t'', ''5'', ''-pix_fmt'', ''yuv420p'', ''-r'', ''30'', ''movies/out.mp4'']
   \<and> (\<forall>P data z. vf_arg P (data\<lparr>zoom := z\<rparr>) = vf_arg P data)"
  by (simp add: example_job_def example_platform_def ffmpegCommand_def filter_defs
      number_text_defs)

text \<open>
  Claim C2. For a job with crop set whose input and output dimensions differ, the
  filter chain is the pixel format, then a crop to the minimum of input and output
  width and of input and output height, at the offset
  \<open>floor ((input - crop) / 2)\<close> on each axis, then the scale to the output size.
\<close>

theorem C2_crop_then_scale:
  assumes "crop data" and "dimensions_differ data"
  shows "vf_arg P data =
           ''format=yuv420p''
           @ '',crop='' @ number_str P (min (input_width data) (output_width data))
           @ '':'' @ number_str P (min (input_height data) (output_height data))
           @ '':'' @ number_str P (of_int \<lfloor>(input_width data
                                    - min (input_width data) (output_width data)) / 2\<rfloor>)
           @ '':'' @ number_str P (of_int \<lfloor>(input_height data
                                    - min (input_height data) (output_height data)) / 2\<rfloor>)
           @ '',scale='' @ number_str P (output_width data)
           @ '':'' @ number_str P (output_height data)"
  using assms
  by (simp add: vf_arg_def cropFilter_def padFilter_def cropWidth_def cropHeight_def
      cropX_def cropY_def)

text \<open>Input (800, 600) and output (400, 400): the region (400, 400) at offset (200, 100).\<close>

theorem C2_crop_then_scale_witness:
  "crop (example_job\<lparr>crop := True, input_width := 800, input_height := 600,
                      output_width := 400, output_height := 400\<rparr>)
   \<and> dimensions_differ (example_job\<lparr>crop := True, input_width := 800, input_height := 600,
                      output_width := 400, output_height := 400\<rparr>)
   \<and> vf_arg example_platform
        (example_job\<lparr>crop := True, input_width := 800, input_height := 600,
                      output_width := 400, output_height := 400\<rparr>)
      = ''format=yuv420p,crop=400:400:200:100,scale=400:400''"
  using C2_crop_then_scale
    [of "example_job\<lparr>crop := True, input_width := 800, input_height := 600,
                       output_width := 400, output_height := 400\<rparr>" example_platform]
  by (simp add: example_job_def dimensions_differ_def number_text_defs)

text \<open>
  Claim C10. For positive input and output dimensions, with crop set and differing
  dimensions, the crop rectangle the filter names lies inside the input frame: its
  offsets are not negative, and offset plus extent stays within the input on each
  axis.
\<close>

theorem C10_crop_rectangle_inside_input:
  assumes "0 < input_width data" and "0 < input_height data"
    and "0 < output_width data" and "0 < output_height data"
    and "crop data" and "dimensions_differ data"
  shows "cropFilter P data =
           '',crop='' @ number_str P (cropWidth data) @ '':'' @ number_str P (cropHeight data)
             @ '':'' @ number_str P (cropX data) @ '':'' @ number_str P (cropY data)
         \<and> 0 \<le> cropX data \<and> 0 \<le> cropY data
         \<and> cropX data + cropWidth data \<le> input_width data
         \<and> cropY data + cropHeight data \<le> input_height data"
  using assms cropX_bounds [of data] cropY_bounds [of data] by (simp add: cropFilter_def)

theorem C10_crop_rectangle_witness:
  "cropX (example_job\<lparr>crop := True, input_width := 801, input_height := 600,
                       output_width := 400, output_height := 1000\<rparr>) = 200
   \<and> cropY (example_job\<lparr>crop := True, input_width := 801, input_height := 600,
                       output_width := 400, output_height := 1000\<rparr>) = 0
   \<and> cropX (example_job\<lparr>crop := True, input_width := 801, input_height := 600,
                       output_width := 400, output_height := 1000\<rparr>) + 400 \<le> 801
   \<and> cropY (example_job\<lparr>crop := True, input_width := 801, input_height := 600,
                       output_width := 400, output_height := 1000\<rparr>) + 600 \<le> 600"
  using C10_crop_rectangle_inside_input
    [of "example_job\<lparr>crop := True, input_width := 801, input_height := 600,
                       output_width := 400, output_height := 1000\<rparr>" example_platform]
  by (simp add: example_job_def filter_defs)

lemmas worker_defs =
  createVideoTask_def process_createVideo_def run_ffmpeg_def call_webhook_def cleanup_def
  webhookPayload_def code_str_def ffmpegCommand_def

lemmas example_defs =
  example_platform_def example_request_def example_job_def example_worker_env_def
  example_route_env_def default_config_def

section \<open>Properties of the render worker\<close>

text \<open>
  Claim C3, as stated, fails where the encoder fails: the task throws before it
  reaches the removal, and the cached file is still there.
\<close>

theorem C3_counterexample_file_kept_after_failure:
  "fst (createVideoTask example_platform default_config (example_worker_env 1 True False)
          example_job {''cache/in.mp4''})
     = Inl (Error ''FFmpeg failed with exit code 1: failed'')
   \<and> ''cache/in.mp4'' \<in> snd (createVideoTask example_platform default_config
          (example_worker_env 1 True False) example_job {''cache/in.mp4''})"
  by (simp add: worker_defs example_defs filter_defs number_text_defs)

text \<open>
  Claim C3, amended. Whether the removal throws never changes the task's outcome.
  When the task succeeds (the encoder and, if there is one, the webhook call went
  well) and the removal does not throw, the cached source file is gone afterwards.
  When the task fails, no removal is attempted: the files are as they were.
\<close>

theorem C3_cleanup_after_success_only:
  "fst (createVideoTask P cfg (E\<lparr>unlinkSync_throws := u\<rparr>) data fs)
     = fst (createVideoTask P cfg E data fs)
   \<and> (fst (createVideoTask P cfg E data fs) = Inr ()
        \<and> \<not> unlinkSync_throws E (cached_input_file data)
      \<longrightarrow> cached_input_file data \<notin> snd (createVideoTask P cfg E data fs))
   \<and> ((\<exists>e. fst (createVideoTask P cfg E data fs) = Inl e)
      \<longrightarrow> snd (createVideoTask P cfg E data fs) = fs)"
  by (auto simp: createVideoTask_def run_ffmpeg_def call_webhook_def cleanup_def
      split: sum.splits proc_result.splits option.splits if_splits)

theorem C3_cleanup_witness:
  "''cache/in.mp4'' \<notin> snd (createVideoTask example_platform default_config
        (example_worker_env 0 True False) example_job {''cache/in.mp4''})
   \<and> snd (createVideoTask example_platform default_config
        (example_worker_env 0 False False) example_job {''cache/in.mp4''}) = {''cache/in.mp4''}
   \<and> fst (createVideoTask example_platform default_config
        (example_worker_env 0 True True) example_job {''cache/in.mp4''}) = Inr ()"
  using
    C3_cleanup_after_success_only [where P = example_platform and cfg = default_config
      and E = "example_worker_env 0 True False" and u = "\<lambda>path. True"
      and data = example_job and fs = "{''cache/in.mp4''}"]
    C3_cleanup_after_success_only [where P = example_platform and cfg = default_config
      and E = "example_worker_env 0 False False" and u = "\<lambda>path. True"
      and data = example_job and fs = "{''cache/in.mp4''}"]
  by (simp add: worker_defs example_defs filter_defs number_text_defs)

text \<open>
  Claim C5. Once the encoder has succeeded: for a job with a webhook URL, a failed
  delivery makes the job's handler throw (\<open>Webhook call failed\<close>); for a job
  without one, the handler returns its success result.
\<close>

theorem C5_webhook_failure_fails_job:
  "(0 < input_width data \<and> 0 < input_height data \<and> 0 < output_width data
      \<and> 0 < output_height data \<and> run_ffmpeg E (ffmpegCommand P data) = Inr ()
      \<and> webhook_url data = Some url \<and> url \<noteq> []
      \<and> \<not> axios_post E url (webhookPayload cfg data)
    \<longrightarrow> fst (process_createVideo P cfg E data fs) = Inl (Error ''Webhook call failed''))
   \<and> (0 < input_width data \<and> 0 < input_height data \<and> 0 < output_width data
      \<and> 0 < output_height data \<and> run_ffmpeg E (ffmpegCommand P data) = Inr ()
      \<and> webhook_url data = None
    \<longrightarrow> fst (process_createVideo P cfg E data fs)
          = Inr \<lparr>success = True, message = ''Video created successfully''\<rparr>)"
  by (simp add: process_createVideo_def createVideoTask_def call_webhook_def)

theorem C5_webhook_witness:
  "fst (process_createVideo example_platform default_config (example_worker_env 0 False False)
          example_job {''cache/in.mp4''}) = Inl (Error ''Webhook call failed'')
   \<and> fst (process_createVideo example_platform default_config (example_worker_env 0 False False)
          (example_job\<lparr>webhook_url := None\<rparr>) {''cache/in.mp4''})
       = Inr \<lparr>success = True, message = ''Video created successfully''\<rparr>"
  using
    C5_webhook_failure_fails_job [where P = example_platform and cfg = default_config
      and E = "example_worker_env 0 False False" and data = example_job
      and url = "''https://example.com/webhook''" and fs = "{''cache/in.mp4''}"]
    C5_webhook_failure_fails_job [where P = example_platform and cfg = default_config
      and E = "example_worker_env 0 False False"
      and data = "example_job\<lparr>webhook_url := None\<rparr>"
      and url = "''https://example.com/webhook''" and fs = "{''cache/in.mp4''}"]
  by (simp add: worker_defs example_defs filter_defs number_text_defs)

section \<open>Properties of the validation and of the route\<close>

lemmas validation_defs =
  validateJson_def videoRequestSchema_def joi_alphanum_def joi_number_safe_def
  is_alnum_char_def isValidRecordId_def isValidUrl_def isValidUrl_try_def allowedIPs_flat_def
  is_integer_def

lemma first_violation_None:
  "first_violation cs = None \<longleftrightarrow> list_all (\<lambda>(key, rule, ok). ok) cs"
  by (induction cs rule: first_violation.induct) auto

lemma validateJson_isValid:
  "isValid (validateJson P data) \<longleftrightarrow>
     list_all (\<lambda>(key, rule, ok). ok) (videoRequestSchema P data)"
  by (simp add: validateJson_def first_violation_None [symmetric] split: option.splits)

text \<open>
  Claim C9. isValidUrl is total: for every string it returns a boolean, and no
  exception leaves it. A string the URL parser refuses gives false, and so does a
  URL whose scheme is neither http nor https.
\<close>

theorem C9_isValidUrl_never_throws:
  "(\<exists>b. isValidUrl P cfg url = Inr b)
   \<and> (url_parse P url = None \<longrightarrow> isValidUrl P cfg url = Inr False)
   \<and> (\<forall>u. url_parse P url = Some u \<and> protocol u \<noteq> ''http:'' \<and> protocol u \<noteq> ''https:''
          \<longrightarrow> isValidUrl P cfg url = Inr False)"
  by (auto simp: isValidUrl_def isValidUrl_try_def split: sum.splits option.splits)

theorem C9_isValidUrl_witness:
  "isValidUrl example_platform default_config ''not a url'' = Inr False
   \<and> isValidUrl example_platform default_config ''ftp://example.com/image.jpg'' = Inr False
   \<and> isValidUrl example_platform default_config ''https://example.com/image.jpg'' = Inr True"
  using
    C9_isValidUrl_never_throws [where P = example_platform and cfg = default_config
      and url = "''not a url''"]
    C9_isValidUrl_never_throws [where P = example_platform and cfg = default_config
      and url = "''ftp://example.com/image.jpg''"]
  by (simp add: example_platform_def default_config_def validation_defs)

text \<open>
  Claim C7. The route checks the schema first: a body that violates it is answered
  \<open>Invalid input data\<close>, whatever its URLs are. Only a body that passes has its
  input URL checked against the allow-list (\<open>Invalid input URL\<close>), and only then
  its webhook URL, if it has one (\<open>Invalid webhook URL\<close>). The first failing check
  answers the request and leaves the state as it was, and the answer to a schema
  violation differs from the answers to a disallowed URL.
\<close>

theorem C7_schema_before_allow_list:
  "(\<not> isValid (validateJson P (req_body req))
      \<longrightarrow> create_video P cfg E req w = (Some (bad_request ''Invalid input data''), w))
   \<and> (isValid (validateJson P (req_body req))
        \<and> isValidUrl P cfg (input_url (req_body req)) = Inr False
      \<longrightarrow> create_video P cfg E req w = (Some (bad_request ''Invalid input URL''), w))
   \<and> (isValid (validateJson P (req_body req))
        \<and> isValidUrl P cfg (input_url (req_body req)) = Inr True
        \<and> webhook_url (req_body req) = Some u \<and> u \<noteq> []
        \<and> isValidUrl P cfg u = Inr False
      \<longrightarrow> create_video P cfg E req w = (Some (bad_request ''Invalid webhook URL''), w))
   \<and> bad_request ''Invalid input data'' \<noteq> bad_request ''Invalid input URL''
   \<and> bad_request ''Invalid input data'' \<noteq> bad_request ''Invalid webhook URL''"
  by (simp add: create_video_def create_video_try_def bad_request_def)



theorem C7_schema_before_allow_list_witness:
  "create_video example_platform default_config (example_route_env (Closed (Some 0) [] []))
      \<lparr>req_body = example_request\<lparr>record_id := ''bad id!'',
                                      input_url := ''https://evil.test/image.jpg''\<rparr>,
       req_host = None\<rparr> \<lparr>files = {}, jobs = []\<rparr>
     = (Some (bad_request ''Invalid input data''), \<lparr>files = {}, jobs = []\<rparr>)
   \<and> create_video example_platform default_config (example_route_env (Closed (Some 0) [] []))
      \<lparr>req_body = example_request\<lparr>input_url := ''https://evil.test/image.jpg''\<rparr>,
       req_host = None\<rparr> \<lparr>files = {}, jobs = []\<rparr>
     = (Some (bad_request ''Invalid input URL''), \<lparr>files = {}, jobs = []\<rparr>)
   \<and> create_video example_platform default_config (example_route_env (Closed (Some 0) [] []))
      \<lparr>req_body = example_request\<lparr>webhook_url := Some ''https://evil.test/image.jpg''\<rparr>,
       req_host = None\<rparr> \<lparr>files = {}, jobs = []\<rparr>
     = (Some (bad_request ''Invalid webhook URL''), \<lparr>files = {}, jobs = []\<rparr>)"
  using
    C7_schema_before_allow_list [where P = example_platform and cfg = default_config
      and E = "example_route_env (Closed (Some 0) [] [])"
      and req = "\<lparr>req_body = example_request\<lparr>record_id := ''bad id!'',
                                      input_url := ''https://evil.test/image.jpg''\<rparr>,
                  req_host = None\<rparr>"
      and w = "\<lparr>files = {}, jobs = []\<rparr>"]
    C7_schema_before_allow_list [where P = example_platform and cfg = default_config
      and E = "example_route_env (Closed (Some 0) [] [])"
      and req = "\<lparr>req_body = example_request\<lparr>input_url := ''https://evil.test/image.jpg''\<rparr>,
                  req_host = None\<rparr>"
      and w = "\<lparr>files = {}, jobs = []\<rparr>"]
    C7_schema_before_allow_list [where P = example_platform and cfg = default_config
      and E = "example_route_env (Closed (Some 0) [] [])"
      and req = "\<lparr>req_body = example_request\<lparr>webhook_url := Some ''https://evil.test/image.jpg''\<rparr>,
                  req_host = None\<rparr>"
      and u = "''https://evil.test/image.jpg''"
      and w = "\<lparr>files = {}, jobs = []\<rparr>"]
  by (simp add: example_defs validation_defs)

lemma schema_rejects:
  assumes "\<not> isValidRecordId (record_id data) \<or> duration data \<le> 0 \<or> 60 < duration data
           \<or> zoom data < - 100 \<or> 100 < zoom data"
  shows "\<not> isValid (validateJson P data)"
  using assms
  by (auto simp: validateJson_isValid videoRequestSchema_def isValidRecordId_def
      joi_alphanum_def)

lemma disallowed_url_rejected:
  assumes "url_parse P url = Some u"
    and "protocol u \<notin> set [''http:'', ''https:'']
         \<or> hostname u \<notin> set (allowedIPs_flat cfg) \<union> set (allowedDomains cfg)"
  shows "isValidUrl P cfg url = Inr False"
  using assms by (auto simp: isValidUrl_def isValidUrl_try_def)

text \<open>
  Claim C8. A record_id that does not match \<open>^[0-9A-Za-z]+$\<close>, a duration
  outside (0, 60] and a zoom outside [-100, 100] are schema violations, and the
  route answers them 400 \<open>Invalid input data\<close>. An input_url whose scheme is not
  http or https, or whose hostname is in neither allow-list, fails isValidUrl, and
  the route answers 400 (\<open>Invalid input URL\<close>, unless the schema already failed).
\<close>

theorem C8_validator_rejects:
  "(\<not> isValidRecordId (record_id data) \<or> duration data \<le> 0 \<or> 60 < duration data
      \<or> zoom data < - 100 \<or> 100 < zoom data
     \<longrightarrow> \<not> isValid (validateJson P data)
         \<and> create_video P cfg E \<lparr>req_body = data, req_host = host\<rparr> w
             = (Some (bad_request ''Invalid input data''), w))
   \<and> ((\<exists>u. url_parse P (input_url data) = Some u
             \<and> (protocol u \<notin> set [''http:'', ''https:'']
                  \<or> hostname u \<notin> set (allowedIPs_flat cfg) \<union> set (allowedDomains cfg)))
     \<longrightarrow> isValidUrl P cfg (input_url data) = Inr False
         \<and> (create_video P cfg E \<lparr>req_body = data, req_host = host\<rparr> w
               = (Some (bad_request ''Invalid input data''), w)
             \<or> create_video P cfg E \<lparr>req_body = data, req_host = host\<rparr> w
               = (Some (bad_request ''Invalid input URL''), w)))"
proof (intro conjI impI)
  assume bad: "\<not> isValidRecordId (record_id data) \<or> duration data \<le> 0 \<or> 60 < duration data
      \<or> zoom data < - 100 \<or> 100 < zoom data"
  then show inv: "\<not> isValid (validateJson P data)" by (rule schema_rejects)
  then show "create_video P cfg E \<lparr>req_body = data, req_host = host\<rparr> w
             = (Some (bad_request ''Invalid input data''), w)"
    by (simp add: create_video_def create_video_try_def)
next
  assume "\<exists>u. url_parse P (input_url data) = Some u
             \<and> (protocol u \<notin> set [''http:'', ''https:'']
                  \<or> hostname u \<notin> set (allowedIPs_flat cfg) \<union> set (allowedDomains cfg))"
  then obtain u where u: "url_parse P (input_url data) = Some u"
    and bad: "protocol u \<notin> set [''http:'', ''https:'']
                  \<or> hostname u \<notin> set (allowedIPs_flat cfg) \<union> set (allowedDomains cfg)"
    by blast
  show no: "isValidUrl P cfg (input_url data) = Inr False"
    using u bad by (rule disallowed_url_rejected)
  show "create_video P cfg E \<lparr>req_body = data, req_host = host\<rparr> w
               = (Some (bad_request ''Invalid input data''), w)
             \<or> create_video P cfg E \<lparr>req_body = data, req_host = host\<rparr> w
               = (Some (bad_request ''Invalid input URL''), w)"
    using no by (simp add: create_video_def create_video_try_def)
qed

theorem C8_validator_rejects_witness:
  "\<not> isValid (validateJson example_platform (example_request\<lparr>record_id := ''bad id!''\<rparr>))
   \<and> \<not> isValid (validateJson example_platform (example_request\<lparr>duration := 61\<rparr>))
   \<and> \<not> isValid (validateJson example_platform (example_request\<lparr>zoom := 150\<rparr>))
   \<and> isValidUrl example_platform default_config ''https://evil.test/image.jpg'' = Inr False
   \<and> isValidUrl example_platform default_config ''ftp://example.com/image.jpg'' = Inr False
   \<and> create_video example_platform default_config (example_route_env (Closed (Some 0) [] []))
        \<lparr>req_body = example_request\<lparr>input_url := ''https://evil.test/image.jpg''\<rparr>,
         req_host = None\<rparr> \<lparr>files = {}, jobs = []\<rparr>
      = (Some (bad_request ''Invalid input URL''), \<lparr>files = {}, jobs = []\<rparr>)"
  using
    C8_validator_rejects [where P = example_platform and cfg = default_config
      and data = "example_request\<lparr>record_id := ''bad id!''\<rparr>"]
    C8_validator_rejects [where P = example_platform and cfg = default_config
      and data = "example_request\<lparr>duration := 61\<rparr>"]
    C8_validator_rejects [where P = example_platform and cfg = default_config
      and data = "example_request\<lparr>zoom := 150\<rparr>"]
    C8_validator_rejects [where P = example_platform and cfg = default_config
      and E = "example_route_env (Closed (Some 0) [] [])"
      and data = "example_request\<lparr>input_url := ''https://evil.test/image.jpg''\<rparr>"
      and host = None and w = "\<lparr>files = {}, jobs = []\<rparr>"]
    C8_validator_rejects [where P = example_platform and cfg = default_config
      and data = "example_request\<lparr>input_url := ''ftp://example.com/image.jpg''\<rparr>"]
  by (simp add: example_defs validation_defs create_video_def create_video_try_def
      bad_request_def)

lemma example_filename: "generateRandomFilename (\<lambda>i. 0) 16 = ''AAAAAAAAAAAAAAAA.mp4''"
  by code_simp

lemmas route_steps =
  create_video_def create_video_try_def acquire_def enqueue_def probe_dimensions_def
  ffprobeCommand_def bad_request_def cachedInputFile_def isJsonContentType_def
  enqueue_options_def

lemma probe_dimensions_fails:
  "(\<exists>e. probe_dimensions P E path = Inl e) \<longleftrightarrow>
     (case spawn_ffprobe E (tl (ffprobeCommand path)) of
        Closed code out err \<Rightarrow> code \<noteq> Some 0 \<or> json_stream_dims P out = None
      | ProcError e \<Rightarrow> True)"
  by (auto simp: probe_dimensions_def split: proc_result.splits option.splits)

lemma create_video_acquire:
  assumes "isValid (validateJson P data)"
    and "isValidUrl P cfg (input_url data) = Inr True"
    and "webhook_url data = None \<or> webhook_url data = Some []
         \<or> (\<exists>u. webhook_url data = Some u \<and> isValidUrl P cfg u = Inr True)"
  shows "acquire P cfg E data w = (Responded r, w1)
           \<Longrightarrow> create_video P cfg E \<lparr>req_body = data, req_host = host\<rparr> w = (Some r, w1)"
    and "acquire P cfg E data w = (Unanswered, w1)
           \<Longrightarrow> create_video P cfg E \<lparr>req_body = data, req_host = host\<rparr> w = (None, w1)"
  using assms by (auto simp: create_video_def create_video_try_def)

text \<open>
  Claim C4, as stated, fails after the download has been written: when the probe
  exits with code 1, and when the write stream ends in an error with a file at the
  path, the request is answered 400 and the file is still in the cache.
\<close>

theorem C4_counterexample_file_left_in_cache:
  "create_video example_platform default_config
      (example_route_env (Closed (Some 1) [] ''Invalid data found when processing input''))
      \<lparr>req_body = example_request, req_host = None\<rparr> \<lparr>files = {}, jobs = []\<rparr>
     = (Some (bad_request ''Failed to download input file''),
        \<lparr>files = {''cache/AAAAAAAAAAAAAAAA.mp4''}, jobs = []\<rparr>)
   \<and> create_video example_platform default_config
      ((example_route_env (Closed (Some 0) [] []))\<lparr>write_stream := \<lambda>path. WriteError True\<rparr>)
      \<lparr>req_body = example_request, req_host = None\<rparr> \<lparr>files = {}, jobs = []\<rparr>
     = (Some (bad_request ''Failed to download input file''),
        \<lparr>files = {''cache/AAAAAAAAAAAAAAAA.mp4''}, jobs = []\<rparr>)"
  by (simp add: example_defs validation_defs route_steps example_filename)

text \<open>
  Claim C4, amended. For a request that passed validation, each of these failures
  is answered 400 and leaves the queue as it was: a rejected download request
  (\<open>Failed to download input file\<close>, cache untouched), a JSON response
  (\<open>Invalid file type\<close>, cache untouched), a cache directory that cannot be
  created (\<open>Failed to download input file\<close>, cache untouched), an error of the
  write stream (\<open>Failed to download input file\<close>; the cache holds whatever file
  the stream left), and a probe that exits with a code other than 0, cannot be
  spawned, or prints what cannot be parsed (\<open>Failed to download input file\<close>;
  the downloaded file stays in the cache). The route removes nothing.
\<close>

theorem C4_acquisition_failure:
  assumes valid: "isValid (validateJson P data)"
    and input_ok: "isValidUrl P cfg (input_url data) = Inr True"
    and webhook_ok: "webhook_url data = None \<or> webhook_url data = Some []
         \<or> (\<exists>u. webhook_url data = Some u \<and> isValidUrl P cfg u = Inr True)"
  shows
    "(axios_get E (input_url data) = GetRejected \<longrightarrow>
        create_video P cfg E \<lparr>req_body = data, req_host = host\<rparr> w
          = (Some (bad_request ''Failed to download input file''), w))
     \<and> (\<forall>ct. axios_get E (input_url data) = GetResponse ct \<and> isJsonContentType ct \<longrightarrow>
        create_video P cfg E \<lparr>req_body = data, req_host = host\<rparr> w
          = (Some (bad_request ''Invalid file type''), w))
     \<and> (\<forall>ct. axios_get E (input_url data) = GetResponse ct \<and> \<not> isJsonContentType ct
            \<and> mkdir_throws E (cacheDir cfg) \<longrightarrow>
        create_video P cfg E \<lparr>req_body = data, req_host = host\<rparr> w
          = (Some (bad_request ''Failed to download input file''), w))
     \<and> (\<forall>ct created. axios_get E (input_url data) = GetResponse ct \<and> \<not> isJsonContentType ct
            \<and> \<not> mkdir_throws E (cacheDir cfg)
            \<and> write_stream E (cachedInputFile P cfg E) = WriteError created \<longrightarrow>
        create_video P cfg E \<lparr>req_body = data, req_host = host\<rparr> w
          = (Some (bad_request ''Failed to download input file''),
             if created then w\<lparr>files := insert (cachedInputFile P cfg E) (files w)\<rparr> else w))
     \<and> (\<forall>ct. axios_get E (input_url data) = GetResponse ct \<and> \<not> isJsonContentType ct
            \<and> \<not> mkdir_throws E (cacheDir cfg)
            \<and> write_stream E (cachedInputFile P cfg E) = Finish
            \<and> (case spawn_ffprobe E (tl (ffprobeCommand (cachedInputFile P cfg E))) of
                  Closed code out err \<Rightarrow> code \<noteq> Some 0 \<or> json_stream_dims P out = None
                | ProcError e \<Rightarrow> True) \<longrightarrow>
        create_video P cfg E \<lparr>req_body = data, req_host = host\<rparr> w
          = (Some (bad_request ''Failed to download input file''),
             w\<lparr>files := insert (cachedInputFile P cfg E) (files w)\<rparr>))"
proof (intro conjI allI impI)
  note cv = create_video_acquire(1) [OF valid input_ok webhook_ok]
  {
    assume "axios_get E (input_url data) = GetRejected"
    then have "acquire P cfg E data w
        = (Responded (bad_request ''Failed to download input file''), w)"
      by (simp add: acquire_def)
    then show "create_video P cfg E \<lparr>req_body = data, req_host = host\<rparr> w
          = (Some (bad_request ''Failed to download input file''), w)"
      by (rule cv)
  }
  {
    fix ct
    assume "axios_get E (input_url data) = GetResponse ct \<and> isJsonContentType ct"
    then have "acquire P cfg E data w = (Responded (bad_request ''Invalid file type''), w)"
      by (simp add: acquire_def)
    then show "create_video P cfg E \<lparr>req_body = data, req_host = host\<rparr> w
          = (Some (bad_request ''Invalid file type''), w)"
      by (rule cv)
  }
  {
    fix ct
    assume "axios_get E (input_url data) = GetResponse ct \<and> \<not> isJsonContentType ct
            \<and> mkdir_throws E (cacheDir cfg)"
    then have "acquire P cfg E data w
        = (Responded (bad_request ''Failed to download input file''), w)"
      by (simp add: acquire_def)
    then show "create_video P cfg E \<lparr>req_body = data, req_host = host\<rparr> w
          = (Some (bad_request ''Failed to download input file''), w)"
      by (rule cv)
  }
  {
    fix ct created
    assume "axios_get E (input_url data) = GetResponse ct \<and> \<not> isJsonContentType ct
            \<and> \<not> mkdir_throws E (cacheDir cfg)
            \<and> write_stream E (cachedInputFile P cfg E) = WriteError created"
    then have "acquire P cfg E data w
        = (Responded (bad_request ''Failed to download input file''),
           if created then w\<lparr>files := insert (cachedInputFile P cfg E) (files w)\<rparr> else w)"
      by (simp add: acquire_def)
    then show "create_video P cfg E \<lparr>req_body = data, req_host = host\<rparr> w
          = (Some (bad_request ''Failed to download input file''),
             if created then w\<lparr>files := insert (cachedInputFile P cfg E) (files w)\<rparr> else w)"
      by (rule cv)
  }
  {
    fix ct
    assume a: "axios_get E (input_url data) = GetResponse ct \<and> \<not> isJsonContentType ct
            \<and> \<not> mkdir_throws E (cacheDir cfg)
            \<and> write_stream E (cachedInputFile P cfg E) = Finish
            \<and> (case spawn_ffprobe E (tl (ffprobeCommand (cachedInputFile P cfg E))) of
                  Closed code out err \<Rightarrow> code \<noteq> Some 0 \<or> json_stream_dims P out = None
                | ProcError e \<Rightarrow> True)"
    then obtain e where "probe_dimensions P E (cachedInputFile P cfg E) = Inl e"
      using probe_dimensions_fails [of P E "cachedInputFile P cfg E"] by blast
    with a have "acquire P cfg E data w
        = (Responded (bad_request ''Failed to download input file''),
           w\<lparr>files := insert (cachedInputFile P cfg E) (files w)\<rparr>)"
      by (simp add: acquire_def)
    then show "create_video P cfg E \<lparr>req_body = data, req_host = host\<rparr> w
          = (Some (bad_request ''Failed to download input file''),
             w\<lparr>files := insert (cachedInputFile P cfg E) (files w)\<rparr>)"
      by (rule cv)
  }
qed

theorem C4_acquisition_failure_witness:
  "create_video example_platform default_config
      ((example_route_env (Closed (Some 0) [] []))\<lparr>axios_get := \<lambda>url. GetRejected\<rparr>)
      \<lparr>req_body = example_request, req_host = None\<rparr> \<lparr>files = {}, jobs = []\<rparr>
     = (Some (bad_request ''Failed to download input file''), \<lparr>files = {}, jobs = []\<rparr>)
   \<and> create_video example_platform default_config
      ((example_route_env (Closed (Some 0) [] []))
         \<lparr>axios_get := \<lambda>url. GetResponse (Some ''application/json; charset=utf-8'')\<rparr>)
      \<lparr>req_body = example_request, req_host = None\<rparr> \<lparr>files = {}, jobs = []\<rparr>
     = (Some (bad_request ''Invalid file type''), \<lparr>files = {}, jobs = []\<rparr>)
   \<and> create_video example_platform default_config
      ((example_route_env (Closed (Some 0) [] []))\<lparr>write_stream := \<lambda>path. WriteError False\<rparr>)
      \<lparr>req_body = example_request, req_host = None\<rparr> \<lparr>files = {}, jobs = []\<rparr>
     = (Some (bad_request ''Failed to download input file''), \<lparr>files = {}, jobs = []\<rparr>)
   \<and> create_video example_platform default_config
      (example_route_env (Closed (Some 1) [] ''no stream''))
      \<lparr>req_body = example_request, req_host = None\<rparr> \<lparr>files = {}, jobs = []\<rparr>
     = (Some (bad_request ''Failed to download input file''),
        \<lparr>files = {''cache/AAAAAAAAAAAAAAAA.mp4''}, jobs = []\<rparr>)
   \<and> create_video example_platform default_config
      (example_route_env (Closed (Some 0) ''not json'' []))
      \<lparr>req_body = example_request, req_host = None\<rparr> \<lparr>files = {}, jobs = []\<rparr>
     = (Some (bad_request ''Failed to download input file''),
        \<lparr>files = {''cache/AAAAAAAAAAAAAAAA.mp4''}, jobs = []\<rparr>)"
proof -
  let ?P = example_platform and ?cfg = default_config
  let ?w = "\<lparr>files = {}, jobs = []\<rparr>"
  let ?E1 = "(example_route_env (Closed (Some 0) [] []))\<lparr>axios_get := \<lambda>url. GetRejected\<rparr>"
  let ?E2 = "(example_route_env (Closed (Some 0) [] []))
         \<lparr>axios_get := \<lambda>url. GetResponse (Some ''application/json; charset=utf-8'')\<rparr>"
  let ?E3 = "(example_route_env (Closed (Some 0) [] []))\<lparr>write_stream := \<lambda>path. WriteError False\<rparr>"
  let ?E4 = "example_route_env (Closed (Some 1) [] ''no stream'')"
  let ?E5 = "example_route_env (Closed (Some 0) ''not json'' [])"
  have v1: "isValid (validateJson ?P example_request)"
    by (simp add: example_defs validation_defs)
  have v2: "isValidUrl ?P ?cfg (input_url example_request) = Inr True"
    by (simp add: example_defs validation_defs)
  have v3: "webhook_url example_request = None \<or> webhook_url example_request = Some []
         \<or> (\<exists>u. webhook_url example_request = Some u \<and> isValidUrl ?P ?cfg u = Inr True)"
    by (simp add: example_defs validation_defs)
  have path: "cachedInputFile ?P ?cfg (example_route_env probe) = ''cache/AAAAAAAAAAAAAAAA.mp4''"
    for probe
    by (simp add: cachedInputFile_def example_defs example_filename)
  have e1: "axios_get ?E1 (input_url example_request) = GetRejected"
    by (simp add: example_defs)
  have e2: "axios_get ?E2 (input_url example_request)
              = GetResponse (Some ''application/json; charset=utf-8'')
            \<and> isJsonContentType (Some ''application/json; charset=utf-8'')"
    by (simp add: example_defs isJsonContentType_def)
  have e3: "axios_get ?E3 (input_url example_request) = GetResponse (Some ''image/jpeg'')
            \<and> \<not> isJsonContentType (Some ''image/jpeg'')
            \<and> \<not> mkdir_throws ?E3 (cacheDir ?cfg)
            \<and> write_stream ?E3 (cachedInputFile ?P ?cfg ?E3) = WriteError False"
    by (simp add: example_defs isJsonContentType_def)
  have e4: "axios_get ?E4 (input_url example_request) = GetResponse (Some ''image/jpeg'')
            \<and> \<not> isJsonContentType (Some ''image/jpeg'')
            \<and> \<not> mkdir_throws ?E4 (cacheDir ?cfg)
            \<and> write_stream ?E4 (cachedInputFile ?P ?cfg ?E4) = Finish
            \<and> (case spawn_ffprobe ?E4 (tl (ffprobeCommand (cachedInputFile ?P ?cfg ?E4))) of
                  Closed code out err \<Rightarrow> code \<noteq> Some 0 \<or> json_stream_dims ?P out = None
                | ProcError e \<Rightarrow> True)"
    by (simp add: example_defs isJsonContentType_def)
  have e5: "axios_get ?E5 (input_url example_request) = GetResponse (Some ''image/jpeg'')
            \<and> \<not> isJsonContentType (Some ''image/jpeg'')
            \<and> \<not> mkdir_throws ?E5 (cacheDir ?cfg)
            \<and> write_stream ?E5 (cachedInputFile ?P ?cfg ?E5) = Finish
            \<and> (case spawn_ffprobe ?E5 (tl (ffprobeCommand (cachedInputFile ?P ?cfg ?E5))) of
                  Closed code out err \<Rightarrow> code \<noteq> Some 0 \<or> json_stream_dims ?P out = None
                | ProcError e \<Rightarrow> True)"
    by (simp add: example_defs isJsonContentType_def)
  note inst = C4_acquisition_failure [OF v1 v2 v3, where host = None and w = ?w]
  have r1: "create_video ?P ?cfg ?E1 \<lparr>req_body = example_request, req_host = None\<rparr> ?w
     = (Some (bad_request ''Failed to download input file''), ?w)"
    by (rule inst [where E = ?E1, THEN conjunct1, rule_format, OF e1])
  have r2: "create_video ?P ?cfg ?E2 \<lparr>req_body = example_request, req_host = None\<rparr> ?w
     = (Some (bad_request ''Invalid file type''), ?w)"
    by (rule inst [where E = ?E2, THEN conjunct2, THEN conjunct1, rule_format, OF e2])
  have r3: "create_video ?P ?cfg ?E3 \<lparr>req_body = example_request, req_host = None\<rparr> ?w
     = (Some (bad_request ''Failed to download input file''), ?w)"
    using inst [where E = ?E3, THEN conjunct2, THEN conjunct2, THEN conjunct2, THEN conjunct1,
        rule_format, OF e3]
    by simp
  have r4: "create_video ?P ?cfg ?E4 \<lparr>req_body = example_request, req_host = None\<rparr> ?w
     = (Some (bad_request ''Failed to download input file''),
        ?w\<lparr>files := insert (cachedInputFile ?P ?cfg ?E4) (files ?w)\<rparr>)"
    by (rule inst [where E = ?E4, THEN conjunct2, THEN conjunct2, THEN conjunct2,
          THEN conjunct2, rule_format, OF e4])
  have r5: "create_video ?P ?cfg ?E5 \<lparr>req_body = example_request, req_host = None\<rparr> ?w
     = (Some (bad_request ''Failed to download input file''),
        ?w\<lparr>files := insert (cachedInputFile ?P ?cfg ?E5) (files ?w)\<rparr>)"
    by (rule inst [where E = ?E5, THEN conjunct2, THEN conjunct2, THEN conjunct2,
          THEN conjunct2, rule_format, OF e5])
  show ?thesis
    using r1 r2 r3 r4 r5 by (simp add: path)
qed

text \<open>
  A download that breaks off after the headers is none of the failures above: the
  route's promise never settles, so the request is never answered, and the opened
  file stays in the cache.
\<close>

lemma stalled_download_unanswered:
  assumes "isValid (validateJson P data)"
    and "isValidUrl P cfg (input_url data) = Inr True"
    and "webhook_url data = None \<or> webhook_url data = Some []
         \<or> (\<exists>u. webhook_url data = Some u \<and> isValidUrl P cfg u = Inr True)"
    and "axios_get E (input_url data) = GetResponse ct" and "\<not> isJsonContentType ct"
    and "\<not> mkdir_throws E (cacheDir cfg)"
    and "write_stream E (cachedInputFile P cfg E) = NeverSettles"
  shows "create_video P cfg E \<lparr>req_body = data, req_host = host\<rparr> w
           = (None, w\<lparr>files := insert (cachedInputFile P cfg E) (files w)\<rparr>)"
proof -
  have "acquire P cfg E data w
          = (Unanswered, w\<lparr>files := insert (cachedInputFile P cfg E) (files w)\<rparr>)"
    using assms(4-7) by (simp add: acquire_def)
  then show ?thesis by (rule create_video_acquire(2) [OF assms(1-3)])
qed

end
